theory Spec2Isabelle
  imports Complex_Main "HOL-Library.Sublist"
begin

section \<open>Python values used by the Swift language server\<close>

text \<open>
  The messages exchanged with SourceKit-LSP are decoded JSON documents: Python
  \<open>None\<close>, \<open>bool\<close>, \<open>int\<close>, \<open>float\<close>, \<open>str\<close>, \<open>list\<close> and \<open>dict\<close> with string
  keys. A \<open>dict\<close> is an association list read with \<open>map_of\<close>. A \<open>str\<close> is a list
  of code points below 256, one \<open>char\<close> each.
\<close>

datatype json =
    JNull
  | JBool bool
  | JInt int
  | JFloat rat
  | JStr string
  | JList "json list"
  | JDict "(string \<times> json) list"

datatype error =
    AttributeError
  | TypeError
  | ValueError
  | AssertionError string

text \<open>\<open>d.get(key, default)\<close>: only a \<open>dict\<close> has the method.\<close>

fun py_get :: "json \<Rightarrow> string \<Rightarrow> json \<Rightarrow> error + json" where
  "py_get (JDict kvs) key dflt = Inr (case map_of kvs key of None \<Rightarrow> dflt | Some v \<Rightarrow> v)"
| "py_get _ key dflt = Inl AttributeError"

text \<open>\<open>len(x)\<close>: defined on \<open>str\<close>, \<open>list\<close> and \<open>dict\<close> (the number of keys).\<close>

fun py_len :: "json \<Rightarrow> error + nat" where
  "py_len (JStr t) = Inr (length t)"
| "py_len (JList xs) = Inr (length xs)"
| "py_len (JDict kvs) = Inr (length (remdups (map fst kvs)))"
| "py_len _ = Inl TypeError"

text \<open>\<open>keyword in text\<close> on two strings: \<open>keyword\<close> occurs as a contiguous substring.\<close>

fun py_in_str :: "string \<Rightarrow> string \<Rightarrow> bool" where
  "py_in_str keyword [] = (keyword = [])"
| "py_in_str keyword (c # cs) = (prefix keyword (c # cs) \<or> py_in_str keyword cs)"

text \<open>
  \<open>key in x\<close> for a string \<open>key\<close>: key membership on a \<open>dict\<close>, element membership on a
  \<open>list\<close>, substring on a \<open>str\<close>; the other values are not containers.
\<close>

fun py_in :: "string \<Rightarrow> json \<Rightarrow> error + bool" where
  "py_in key (JDict kvs) = Inr (key \<in> set (map fst kvs))"
| "py_in key (JList xs) = Inr (JStr key \<in> set xs)"
| "py_in key (JStr t) = Inr (py_in_str key t)"
| "py_in key _ = Inl TypeError"

text \<open>
  \<open>str.lower()\<close> on code points below 256: the letters \<open>A\<close> to \<open>Z\<close> and the Latin-1
  capitals \<open>0xC0\<close> to \<open>0xDE\<close> (without the multiplication sign \<open>0xD7\<close>) move up by 32,
  every other code point stays.
\<close>

definition lower_char :: "char \<Rightarrow> char" where
  "lower_char c =
     (let n = (of_char c :: nat)
      in if (65 \<le> n \<and> n \<le> 90) \<or> (192 \<le> n \<and> n \<le> 222 \<and> n \<noteq> 215)
         then char_of (n + 32) else c)"

definition py_lower :: "string \<Rightarrow> string" where
  "py_lower t = map lower_char t"

text \<open>
  \<open>any(keyword in message_text.lower() for keyword in keywords)\<close>: the generator calls
  \<open>lower\<close> for the first keyword already, so a message that is not a \<open>str\<close> raises
  \<open>AttributeError\<close> unless the keyword list is empty.
\<close>

definition any_keyword_in :: "string list \<Rightarrow> json \<Rightarrow> error + bool" where
  "any_keyword_in keywords message_text =
     (if keywords = [] then Inr False
      else case message_text of
             JStr t \<Rightarrow> Inr (list_ex (\<lambda>keyword. py_in_str keyword (py_lower t)) keywords)
           | _ \<Rightarrow> Inl AttributeError)"

section \<open>Ignored directories\<close>

text \<open>
  \<open>is_ignored_dirname\<close> (lines 44-55). The superclass method is defined outside this
  file and is taken as the parameter \<open>super_is_ignored_dirname\<close>.
\<close>

definition swift_ignored_dirnames :: "string list" where
  "swift_ignored_dirnames =
     [''.build'', ''.swiftpm'', ''build'', ''DerivedData'', ''.DS_Store'', ''xcuserdata'',
      ''*.xcworkspace'', ''*.xcodeproj'']"

definition is_ignored_dirname :: "(string \<Rightarrow> bool) \<Rightarrow> string \<Rightarrow> bool" where
  "is_ignored_dirname super_is_ignored_dirname dirname =
     (super_is_ignored_dirname dirname \<or> dirname \<in> set swift_ignored_dirnames)"

section \<open>Request handlers\<close>

text \<open>The handlers that answer server requests (lines 247-251 and 308-313).\<close>

definition execute_client_command_handler :: "json \<Rightarrow> error + json" where
  "execute_client_command_handler params = Inr (JList [])"

definition do_nothing :: "json \<Rightarrow> error + json" where
  "do_nothing params = Inr JNull"

definition workspace_configuration_handler :: "json \<Rightarrow> error + json" where
  "workspace_configuration_handler params =
     (case py_get params ''items'' (JList []) of
        Inl e \<Rightarrow> Inl e
      | Inr items \<Rightarrow>
          (case py_len items of
             Inl e \<Rightarrow> Inl e
           | Inr n \<Rightarrow> Inr (JList (replicate n (JDict [])))))"

section \<open>The server object\<close>

text \<open>
  The fields of \<open>SwiftLanguageServer\<close> that \<open>_start_server\<close> and its handlers read or
  write. The two \<open>threading.Event\<close> objects are their flags. The logger and the transport
  (\<open>self.server\<close>) are collaborators defined outside this file: the state records the
  calls made on them, in order. A logged text is kept as the pieces of its f-string,
  so that no rendering of a value is assumed.
\<close>

datatype level = INFO | WARNING

datatype piece = Lit string | Val json

datatype call =
    OnRequest string
  | OnNotification string
  | Start
  | SendInitialize json
  | NotifyInitialized json

record server =
  repository_root_path :: string
  found_source_files :: bool
  analysis_complete :: bool
  completions_available :: bool
  logged :: "(piece list \<times> level) list"
  calls :: "call list"
  completions_pending :: bool

text \<open>
  The handlers run on the reader thread of the transport, \<open>_start_server\<close> on the thread of
  its caller. A handler that fires calls \<open>analysis_complete.set()\<close> and then
  \<open>completions_available.set()\<close>; the first call wakes a thread that waits on the event.
  \<open>completions_pending\<close> holds while the reader thread stands between the two calls.
\<close>

text \<open>
  \<open>__init__\<close> (lines 26-42): a fresh \<open>analysis_complete\<close> event and
  \<open>found_source_files = False\<close>. The superclass constructor creates
  \<open>completions_available\<close>; its state after construction is the parameter \<open>ca\<close>.
\<close>

definition new_server :: "string \<Rightarrow> bool \<Rightarrow> server" where
  "new_server repository_root ca =
     \<lparr>repository_root_path = repository_root, found_source_files = False,
      analysis_complete = False, completions_available = ca, logged = [], calls = [],
      completions_pending = False\<rparr>"

definition logger_log :: "piece list \<Rightarrow> level \<Rightarrow> server \<Rightarrow> server" where
  "logger_log text lvl s = s\<lparr>logged := logged s @ [(text, lvl)]\<rparr>"

definition server_call :: "call \<Rightarrow> server \<Rightarrow> server" where
  "server_call c s = s\<lparr>calls := calls s @ [c]\<rparr>"

text \<open>
  The three statements that each of the three notification handlers executes when it
  fires (lines 272-274, 289-291, 304-306): \<open>found_source_files = True\<close>,
  \<open>analysis_complete.set()\<close>, \<open>completions_available.set()\<close>. \<open>held\<close> says that the
  reader thread has not yet taken the last of them, which is then pending.
\<close>

definition mark_analysis_complete :: "bool \<Rightarrow> server \<Rightarrow> server" where
  "mark_analysis_complete held s =
     (let s1 = s\<lparr>found_source_files := True\<rparr>;
          s2 = s1\<lparr>analysis_complete := True\<rparr>
      in if held then s2\<lparr>completions_pending := True\<rparr>
         else s2\<lparr>completions_available := True\<rparr>)"

text \<open>
  The reader thread goes on: the pending \<open>completions_available.set()\<close> of line 274, 291
  or 306, if there is one.
\<close>

definition finish_handler :: "server \<Rightarrow> server" where
  "finish_handler s =
     (if completions_pending s
      then s\<lparr>completions_available := True, completions_pending := False\<rparr> else s)"

section \<open>Notification handlers\<close>

text \<open>
  A handler returns the exception it raised, if any, and the state it leaves. What was
  logged before a raise stays logged. \<open>window_log_message_steps held\<close> is the handler run
  to its end (\<open>held = False\<close>) or, when it fires, to the point before its
  \<open>completions_available.set()\<close> (\<open>held = True\<close>); likewise for the other two handlers.
\<close>

definition log_keywords :: "string list" where
  "log_keywords =
     [''indexing complete'', ''finished indexing'', ''build complete'',
      ''compilation finished'', ''swift package resolved'']"

definition show_keywords :: "string list" where
  "show_keywords = [''package resolution complete'', ''build succeeded'', ''indexing finished'']"

definition progress_keywords :: "string list" where
  "progress_keywords = [''indexing'', ''building'', ''resolving'']"

text \<open>\<open>window_log_message\<close> (lines 253-274).\<close>

definition window_log_message_steps ::
    "bool \<Rightarrow> json \<Rightarrow> server \<Rightarrow> error option \<times> server" where
  "window_log_message_steps held msg s =
     (case py_get msg ''message'' (JStr []) of
        Inl e \<Rightarrow> (Some e, s)
      | Inr message_text \<Rightarrow>
          (let s1 = logger_log [Lit ''LSP: window/logMessage: '', Val message_text] INFO s
           in case any_keyword_in log_keywords message_text of
                Inl e \<Rightarrow> (Some e, s1)
              | Inr matched \<Rightarrow>
                  if matched
                  then (None, mark_analysis_complete held
                          (logger_log [Lit ''SourceKit-LSP workspace analysis complete''] INFO s1))
                  else (None, s1)))"

definition window_log_message :: "json \<Rightarrow> server \<Rightarrow> error option \<times> server" where
  "window_log_message msg s = window_log_message_steps False msg s"

text \<open>\<open>window_show_message\<close> (lines 276-291).\<close>

definition window_show_message_steps ::
    "bool \<Rightarrow> json \<Rightarrow> server \<Rightarrow> error option \<times> server" where
  "window_show_message_steps held msg s =
     (case py_get msg ''message'' (JStr []) of
        Inl e \<Rightarrow> (Some e, s)
      | Inr message_text \<Rightarrow>
          (case py_get msg ''type'' (JInt 1) of
             Inl e \<Rightarrow> (Some e, s)
           | Inr message_type \<Rightarrow>
               (let s1 = logger_log
                           [Lit ''LSP: window/showMessage (type='', Val message_type,
                            Lit ''): '', Val message_text] INFO s
                in case any_keyword_in show_keywords message_text of
                     Inl e \<Rightarrow> (Some e, s1)
                   | Inr matched \<Rightarrow>
                       if matched
                       then (let s2 = logger_log
                                        [Lit ''SourceKit-LSP analysis detected via showMessage'']
                                        INFO s1
                             in if \<not> found_source_files s2
                                then (None, mark_analysis_complete held s2)
                                else (None, s2))
                       else (None, s1))))"


text \<open>
  \<open>progress_notification\<close> (lines 293-306). \<open>and\<close> evaluates the keyword test only when
  \<open>kind == "end"\<close> holds.
\<close>

definition progress_notification_steps ::
    "bool \<Rightarrow> json \<Rightarrow> server \<Rightarrow> error option \<times> server" where
  "progress_notification_steps held params s =
     (case py_get params ''value'' (JDict []) of
        Inl e \<Rightarrow> (Some e, s)
      | Inr val \<Rightarrow>
          (case py_get val ''kind'' (JStr []) of
             Inl e \<Rightarrow> (Some e, s)
           | Inr kind \<Rightarrow>
               (case py_get val ''message'' (JStr []) of
                  Inl e \<Rightarrow> (Some e, s)
                | Inr message \<Rightarrow>
                    (case (if kind = JStr ''end'' then any_keyword_in progress_keywords message
                           else Inr False) of
                       Inl e \<Rightarrow> (Some e, s)
                     | Inr matched \<Rightarrow>
                         if matched
                         then (let s1 = logger_log
                                          [Lit ''SourceKit-LSP progress end: '', Val message] INFO s
                               in if \<not> found_source_files s1
                                  then (None, mark_analysis_complete held s1)
                                  else (None, s1))
                         else (None, s)))))"

definition progress_notification :: "json \<Rightarrow> server \<Rightarrow> error option \<times> server" where
  "progress_notification params s = progress_notification_steps False params s"

section \<open>Initialize parameters\<close>

text \<open>
  \<open>_get_initialize_params\<close> (lines 57-226). The capability document is a constant of
  the source. \<open>os.getpid()\<close>, \<open>pathlib.Path(p).as_uri()\<close> and \<open>os.path.basename\<close> belong
  to the Python library: the process id is the parameter \<open>pid\<close>, the two path functions
  are the parameters \<open>as_uri\<close> (which raises \<open>ValueError\<close> on a relative path) and
  \<open>basename\<close>.
\<close>

definition client_capabilities :: json where
  "client_capabilities =
    JDict
     [(''workspace'', JDict
         [(''applyEdit'', JBool True),
          (''workspaceEdit'', JDict [(''documentChanges'', JBool True)]),
          (''didChangeConfiguration'', JDict [(''dynamicRegistration'', JBool True)]),
          (''didChangeWatchedFiles'', JDict [(''dynamicRegistration'', JBool True)]),
          (''symbol'', JDict
             [(''dynamicRegistration'', JBool True),
              (''symbolKind'', JDict [(''valueSet'', JList (map JInt [1..26]))])]),
          (''executeCommand'', JDict [(''dynamicRegistration'', JBool True)]),
          (''workspaceFolders'', JBool True),
          (''configuration'', JBool True)]),
      (''textDocument'', JDict
         [(''synchronization'', JDict
             [(''dynamicRegistration'', JBool True),
              (''willSave'', JBool True),
              (''willSaveWaitUntil'', JBool True),
              (''didSave'', JBool True)]),
          (''completion'', JDict
             [(''dynamicRegistration'', JBool True),
              (''contextSupport'', JBool True),
              (''completionItem'', JDict
                 [(''snippetSupport'', JBool True),
                  (''commitCharactersSupport'', JBool True),
                  (''documentationFormat'', JList [JStr ''markdown'', JStr ''plaintext'']),
                  (''deprecatedSupport'', JBool True),
                  (''preselectSupport'', JBool True),
                  (''tagSupport'', JDict [(''valueSet'', JList [JInt 1, JInt 2])]),
                  (''insertReplaceSupport'', JBool True),
                  (''resolveSupport'', JDict
                     [(''properties'', JList
                         [JStr ''documentation'',
                          JStr ''detail'',
                          JStr ''additionalTextEdits''])])]),
              (''completionItemKind'', JDict [(''valueSet'', JList (map JInt [1..25]))]),
              (''insertTextMode'', JInt 2)]),
          (''hover'', JDict
             [(''dynamicRegistration'', JBool True),
              (''contentFormat'', JList [JStr ''markdown'', JStr ''plaintext''])]),
          (''signatureHelp'', JDict
             [(''dynamicRegistration'', JBool True),
              (''signatureInformation'', JDict
                 [(''documentationFormat'', JList [JStr ''markdown'', JStr ''plaintext'']),
                  (''parameterInformation'', JDict [(''labelOffsetSupport'', JBool True)]),
                  (''activeParameterSupport'', JBool True)]),
              (''contextSupport'', JBool True)]),
          (''definition'', JDict [(''dynamicRegistration'', JBool True), (''linkSupport'', JBool True)]),
          (''references'', JDict [(''dynamicRegistration'', JBool True)]),
          (''documentHighlight'', JDict [(''dynamicRegistration'', JBool True)]),
          (''documentSymbol'', JDict
             [(''dynamicRegistration'', JBool True),
              (''symbolKind'', JDict [(''valueSet'', JList (map JInt [1..26]))]),
              (''hierarchicalDocumentSymbolSupport'', JBool True),
              (''tagSupport'', JDict [(''valueSet'', JList [JInt 1, JInt 2])])]),
          (''codeAction'', JDict
             [(''dynamicRegistration'', JBool True),
              (''isPreferredSupport'', JBool True),
              (''disabledSupport'', JBool True),
              (''dataSupport'', JBool True),
              (''codeActionLiteralSupport'', JDict
                 [(''codeActionKind'', JDict
                     [(''valueSet'', JList
                         [JStr '''',
                          JStr ''quickfix'',
                          JStr ''refactor'',
                          JStr ''refactor.extract'',
                          JStr ''refactor.inline'',
                          JStr ''refactor.rewrite'',
                          JStr ''source'',
                          JStr ''source.organizeImports'',
                          JStr ''source.fixAll''])])]),
              (''resolveSupport'', JDict [(''properties'', JList [JStr ''edit''])])]),
          (''codeLens'', JDict [(''dynamicRegistration'', JBool True)]),
          (''formatting'', JDict [(''dynamicRegistration'', JBool True)]),
          (''rangeFormatting'', JDict [(''dynamicRegistration'', JBool True)]),
          (''onTypeFormatting'', JDict [(''dynamicRegistration'', JBool True)]),
          (''rename'', JDict [(''dynamicRegistration'', JBool True), (''prepareSupport'', JBool True)]),
          (''foldingRange'', JDict
             [(''dynamicRegistration'', JBool True),
              (''rangeLimit'', JInt 5000),
              (''lineFoldingOnly'', JBool True)]),
          (''selectionRange'', JDict [(''dynamicRegistration'', JBool True)]),
          (''publishDiagnostics'', JDict
             [(''relatedInformation'', JBool True),
              (''versionSupport'', JBool False),
              (''tagSupport'', JDict [(''valueSet'', JList [JInt 1, JInt 2])]),
              (''codeDescriptionSupport'', JBool True),
              (''dataSupport'', JBool True)]),
          (''callHierarchy'', JDict [(''dynamicRegistration'', JBool True)]),
          (''semanticTokens'', JDict
             [(''dynamicRegistration'', JBool True),
              (''tokenTypes'', JList
                 [JStr ''namespace'',
                  JStr ''type'',
                  JStr ''class'',
                  JStr ''enum'',
                  JStr ''interface'',
                  JStr ''struct'',
                  JStr ''typeParameter'',
                  JStr ''parameter'',
                  JStr ''variable'',
                  JStr ''property'',
                  JStr ''enumMember'',
                  JStr ''event'',
                  JStr ''function'',
                  JStr ''method'',
                  JStr ''macro'',
                  JStr ''keyword'',
                  JStr ''modifier'',
                  JStr ''comment'',
                  JStr ''string'',
                  JStr ''number'',
                  JStr ''regexp'',
                  JStr ''operator'']),
              (''tokenModifiers'', JList
                 [JStr ''declaration'',
                  JStr ''definition'',
                  JStr ''readonly'',
                  JStr ''static'',
                  JStr ''deprecated'',
                  JStr ''abstract'',
                  JStr ''async'',
                  JStr ''modification'',
                  JStr ''documentation'',
                  JStr ''defaultLibrary'']),
              (''formats'', JList [JStr ''relative'']),
              (''requests'', JDict [(''range'', JBool True), (''full'', JDict [(''delta'', JBool True)])])])]),
      (''window'', JDict
         [(''workDoneProgress'', JBool True),
          (''showMessage'', JDict
             [(''messageActionItem'', JDict [(''additionalPropertiesSupport'', JBool True)])]),
          (''showDocument'', JDict [(''support'', JBool True)])]),
      (''general'', JDict
         [(''regularExpressions'', JDict [(''engine'', JStr ''ECMAScript'')]),
          (''markdown'', JDict [(''parser'', JStr ''marked''), (''version'', JStr ''1.1.0'')])])]"

definition get_initialize_params ::
    "int \<Rightarrow> (string \<Rightarrow> error + string) \<Rightarrow> (string \<Rightarrow> string) \<Rightarrow> string \<Rightarrow> error + json" where
  "get_initialize_params pid as_uri basename repository_absolute_path =
     (case as_uri repository_absolute_path of
        Inl e \<Rightarrow> Inl e
      | Inr uri \<Rightarrow>
          Inr (JDict
            [(''processId'', JInt pid),
             (''rootPath'', JStr repository_absolute_path),
             (''rootUri'', JStr uri),
             (''initializationOptions'', JDict
                [(''fallbackBuildSystem'', JStr ''swiftpm''),
                 (''backgroundIndexing'', JBool True),
                 (''completion'', JDict
                    [(''maxResults'', JInt 200), (''serverSideFiltering'', JBool True)])]),
             (''capabilities'', client_capabilities),
             (''workspaceFolders'', JList
                [JDict [(''uri'', JStr uri),
                        (''name'', JStr (basename repository_absolute_path))]])]))"

section \<open>Inbound messages\<close>

text \<open>
  Once the transport runs, its reader thread hands every inbound message to the handler
  registered for its method (lines 316-322). The handlers of the two \<open>do_nothing\<close>
  registrations and of the requests leave the server object as it is.
\<close>

datatype inbound = Notification string json | Request string json

text \<open>The reply to a server request, by the registrations of lines 316, 319 and 320.\<close>

definition reply :: "string \<Rightarrow> json \<Rightarrow> (error + json) option" where
  "reply method params =
     (if method = ''client/registerCapability'' then Some (do_nothing params)
      else if method = ''workspace/executeClientCommand''
        then Some (execute_client_command_handler params)
      else if method = ''workspace/configuration''
        then Some (workspace_configuration_handler params)
      else None)"

text \<open>
  Modelled from the spec: the dispatch of the transport, which is not part of this file.
  "Handler invocation is fire-and-forget from the transport's perspective for
  notifications": the handler registered for the method runs, an exception it raises
  is not passed on, and the next message is delivered. The reader thread is sequential:
  it takes up a message when the handler of the one before has returned. \<open>held\<close> is as in
  the handlers.
\<close>

definition deliver_steps :: "bool \<Rightarrow> inbound \<Rightarrow> server \<Rightarrow> server" where
  "deliver_steps held m s =
     (let s0 = finish_handler s
      in case m of
           Notification method params \<Rightarrow>
             if method = ''window/logMessage''
               then snd (window_log_message_steps held params s0)
             else if method = ''window/showMessage''
               then snd (window_show_message_steps held params s0)
             else if method = ''$/progress''
               then snd (progress_notification_steps held params s0)
             else s0
         | Request method params \<Rightarrow> s0)"

text \<open>The delivery of a message whose handler is left to run to its end.\<close>

definition deliver :: "inbound \<Rightarrow> server \<Rightarrow> server" where
  "deliver m s = deliver_steps False m s"

fun deliver_all :: "inbound list \<Rightarrow> server \<Rightarrow> server" where
  "deliver_all [] s = s"
| "deliver_all (m # ms) s = deliver_all ms (deliver m s)"

text \<open>
  Whether a message makes its handler fire: the test of lines 261-270, of line 286 or
  of line 301 evaluates to \<open>True\<close> on it.
\<close>

definition message_test :: "string list \<Rightarrow> json \<Rightarrow> error + bool" where
  "message_test keywords msg =
     (case py_get msg ''message'' (JStr []) of
        Inl e \<Rightarrow> Inl e
      | Inr message_text \<Rightarrow> any_keyword_in keywords message_text)"

definition progress_test :: "json \<Rightarrow> error + bool" where
  "progress_test params =
     (case py_get params ''value'' (JDict []) of
        Inl e \<Rightarrow> Inl e
      | Inr val \<Rightarrow>
          (case py_get val ''kind'' (JStr []) of
             Inl e \<Rightarrow> Inl e
           | Inr kind \<Rightarrow>
               (case py_get val ''message'' (JStr []) of
                  Inl e \<Rightarrow> Inl e
                | Inr message \<Rightarrow>
                    if kind = JStr ''end'' then any_keyword_in progress_keywords message
                    else Inr False)))"

definition fires :: "inbound \<Rightarrow> bool" where
  "fires m =
     (case m of
        Notification method params \<Rightarrow>
          if method = ''window/logMessage'' then message_test log_keywords params = Inr True
          else if method = ''window/showMessage''
            then message_test show_keywords params = Inr True
          else if method = ''$/progress'' then progress_test params = Inr True
          else False
      | Request method params \<Rightarrow> False)"

section \<open>Starting the server\<close>

text \<open>
  What \<open>_start_server\<close> (lines 228-365) is given from outside: the process id and the two
  path functions of the Python library, the response of the server to the initialize
  request, the messages the reader thread delivers while the request is pending, and the
  messages it delivers from then on until the timeout of the wait expires. \<open>returns_early\<close>
  is the choice of the scheduler once a handler has called \<open>analysis_complete.set()\<close> during
  the wait: whether the woken thread runs \<open>_start_server\<close> to its return before the reader
  thread reaches \<open>completions_available.set()\<close>.
\<close>

record env =
  getpid :: int
  as_uri :: "string \<Rightarrow> error + string"
  basename :: "string \<Rightarrow> string"
  initialize_response :: json
  during_initialize :: "inbound list"
  during_wait :: "inbound list"
  returns_early :: bool

text \<open>Lines 316-322.\<close>

definition register_handlers :: "server \<Rightarrow> server" where
  "register_handlers s =
     server_call (OnNotification ''textDocument/publishDiagnostics'')
       (server_call (OnNotification ''$/progress'')
         (server_call (OnRequest ''workspace/configuration'')
           (server_call (OnRequest ''workspace/executeClientCommand'')
             (server_call (OnNotification ''window/showMessage'')
               (server_call (OnNotification ''window/logMessage'')
                 (server_call (OnRequest ''client/registerCapability'') s))))))"

text \<open>
  Lines 343-351, entered once the assertion of line 339 has passed: a warning for each
  optional capability that is missing, then the \<open>initialized\<close> notification.
\<close>

definition warn_if_missing :: "string \<Rightarrow> string \<Rightarrow> json \<Rightarrow> server \<Rightarrow> error option \<times> server" where
  "warn_if_missing key warning capabilities s =
     (case py_in key capabilities of
        Inl e \<Rightarrow> (Some e, s)
      | Inr present \<Rightarrow>
          if \<not> present then (None, logger_log [Lit warning] WARNING s) else (None, s))"

definition complete_handshake :: "json \<Rightarrow> server \<Rightarrow> error option \<times> server" where
  "complete_handshake capabilities s =
     (case warn_if_missing ''completionProvider''
             ''Warning: SourceKit-LSP did not advertise completionProvider capability''
             capabilities s of
        (Some e, s1) \<Rightarrow> (Some e, s1)
      | (None, s1) \<Rightarrow>
          (case warn_if_missing ''definitionProvider''
                  ''Warning: SourceKit-LSP did not advertise definitionProvider capability''
                  capabilities s1 of
             (Some e, s2) \<Rightarrow> (Some e, s2)
           | (None, s2) \<Rightarrow> (None, server_call (NotifyInitialized (JDict [])) s2)))"

text \<open>
  Lines 316-351: registration, start of the transport, the initialize request and the
  check of its response. \<open>assert\<close> raises \<open>AssertionError\<close> with its message.
\<close>

definition handshake :: "env \<Rightarrow> server \<Rightarrow> error option \<times> server" where
  "handshake env s =
     (let s1 = register_handlers s;
          s2 = logger_log [Lit ''Starting sourcekit-lsp server process''] INFO s1;
          s3 = server_call Start s2
      in case get_initialize_params (getpid env) (as_uri env) (basename env)
                (repository_root_path s3) of
           Inl e \<Rightarrow> (Some e, s3)
         | Inr initialize_params \<Rightarrow>
             (let s4 = logger_log
                         [Lit ''Sending initialize request from LSP client to SourceKit-LSP server and awaiting response'']
                         INFO s3;
                  s5 = deliver_all (during_initialize env)
                         (server_call (SendInitialize initialize_params) s4);
                  init_response = initialize_response env;
                  s6 = logger_log
                         [Lit ''Received initialize response from SourceKit-LSP server: '',
                          Val init_response] INFO s5
              in case py_get init_response ''capabilities'' (JDict []) of
                   Inl e \<Rightarrow> (Some e, s6)
                 | Inr capabilities \<Rightarrow>
                     (case py_in ''textDocumentSync'' capabilities of
                        Inl e \<Rightarrow> (Some e, s6)
                      | Inr supported \<Rightarrow>
                          if \<not> supported
                          then (Some (AssertionError
                                        ''SourceKit-LSP must support textDocumentSync''), s6)
                          else complete_handshake capabilities s6)))"

text \<open>
  \<open>self.analysis_complete.wait(timeout=timeout)\<close> (line 359): the call returns \<open>True\<close> as
  soon as the event is set, and \<open>False\<close> when the messages that arrive before the timeout
  have all been handled and none has set it. With \<open>early\<close>, the call returns while the
  handler that set the event is still held before its \<open>completions_available.set()\<close>.
\<close>

fun analysis_complete_wait :: "bool \<Rightarrow> inbound list \<Rightarrow> server \<Rightarrow> bool \<times> server" where
  "analysis_complete_wait early [] s = (analysis_complete s, s)"
| "analysis_complete_wait early (m # ms) s =
     (if analysis_complete s then (True, s)
      else analysis_complete_wait early ms (deliver_steps early m s))"

text \<open>Lines 353-365; \<open>timeout\<close> is the float \<open>15.0\<close>, which an f-string prints as \<open>15.0\<close>.\<close>

definition await_analysis :: "bool \<Rightarrow> inbound list \<Rightarrow> server \<Rightarrow> server" where
  "await_analysis early arriving s =
     (let s1 = logger_log
                 [Lit ''Waiting for SourceKit-LSP to complete initial workspace analysis...'']
                 INFO s
      in case analysis_complete_wait early arriving s1 of
           (signalled, s2) \<Rightarrow>
             if signalled
             then logger_log [Lit ''SourceKit-LSP initial analysis complete, server ready'']
                    INFO s2
             else (logger_log
                     [Lit ''Timeout (15.0s) waiting for SourceKit-LSP analysis completion, proceeding anyway'']
                     WARNING s2)
                  \<lparr>analysis_complete := True, completions_available := True\<rparr>)"

definition start_server :: "env \<Rightarrow> server \<Rightarrow> error option \<times> server" where
  "start_server env s =
     (case handshake env s of
        (Some e, s1) \<Rightarrow> (Some e, s1)
      | (None, s1) \<Rightarrow> (None, await_analysis (returns_early env) (during_wait env) s1))"

section \<open>Notions used to state the properties\<close>

text \<open>
  Whether the handler that a message is delivered to executes the three statements of
  \<open>mark_analysis_complete\<close>: the message fires, and the guard \<open>not found_source_files\<close> of
  the show-message and progress handlers is open.
\<close>

definition sets_events :: "inbound \<Rightarrow> server \<Rightarrow> bool" where
  "sets_events m s =
     (fires m \<and>
      (\<not> found_source_files s \<or>
       (case m of Notification method params \<Rightarrow> method = ''window/logMessage''
        | Request method params \<Rightarrow> False)))"

text \<open>The server object without its log trail.\<close>

definition unlogged :: "server \<Rightarrow> server" where
  "unlogged s = s\<lparr>logged := []\<rparr>"

text \<open>
  "Case-insensitive substring", as the specification words it: some contiguous piece of
  the text equals the keyword up to the case of its letters.
\<close>

definition contains_ignoring_case :: "string \<Rightarrow> string \<Rightarrow> bool" where
  "contains_ignoring_case keyword text =
     list_ex (\<lambda>piece. py_lower piece = py_lower keyword) (sublists text)"


text \<open>
  Instances of the two path functions, to run \<open>_start_server\<close> on concrete inputs. On an
  absolute POSIX path without repeated or trailing slashes, dot components or characters
  that a URI quotes, \<open>as_uri\<close> prepends \<open>file://\<close>; on a relative path it raises
  \<open>ValueError\<close>. \<open>posixpath.basename\<close> returns what follows the last slash.
\<close>

definition posix_as_uri :: "string \<Rightarrow> error + string" where
  "posix_as_uri p = (if prefix ''/'' p then Inr (''file://'' @ p) else Inl ValueError)"

definition posix_basename :: "string \<Rightarrow> string" where
  "posix_basename p = rev (takeWhile (\<lambda>c. c \<noteq> CHR ''/'') (rev p))"

text \<open>
  A run of \<open>_start_server\<close> in process 4242 in which the server answers the initialize
  request with the given response and no message arrives; the scheduler lets every
  handler finish before the waiting thread goes on.
\<close>

definition quiet_env :: "json \<Rightarrow> env" where
  "quiet_env response =
     \<lparr>getpid = 4242, as_uri = posix_as_uri, basename = posix_basename,
      initialize_response = response, during_initialize = [], during_wait = [],
      returns_early = False\<rparr>"

text \<open>An initialize response that advertises completion and no document synchronization.\<close>

definition completion_only_response :: json where
  "completion_only_response =
     JDict [(''capabilities'', JDict [(''completionProvider'', JDict [])])]"

text \<open>The initialize parameters of process 4242 for the repository \<open>/w\<close>.\<close>

definition params_of_w :: json where
  "params_of_w =
     JDict
       [(''processId'', JInt 4242),
        (''rootPath'', JStr ''/w''),
        (''rootUri'', JStr ''file:///w''),
        (''initializationOptions'', JDict
           [(''fallbackBuildSystem'', JStr ''swiftpm''),
            (''backgroundIndexing'', JBool True),
            (''completion'', JDict
               [(''maxResults'', JInt 200), (''serverSideFiltering'', JBool True)])]),
        (''capabilities'', client_capabilities),
        (''workspaceFolders'', JList
           [JDict [(''uri'', JStr ''file:///w''), (''name'', JStr ''w'')]])]"

text \<open>The check of lines 338-339 as a predicate of the initialize response.\<close>

definition supports_text_document_sync :: "json \<Rightarrow> bool" where
  "supports_text_document_sync init_response =
     (case py_get init_response ''capabilities'' (JDict []) of
        Inl e \<Rightarrow> False
      | Inr capabilities \<Rightarrow> py_in ''textDocumentSync'' capabilities = Inr True)"

text \<open>The calls that \<open>register_handlers\<close> makes on the transport, in order.\<close>

definition handler_registrations :: "call list" where
  "handler_registrations =
     [OnRequest ''client/registerCapability'', OnNotification ''window/logMessage'',
      OnNotification ''window/showMessage'', OnRequest ''workspace/executeClientCommand'',
      OnRequest ''workspace/configuration'', OnNotification ''$/progress'',
      OnNotification ''textDocument/publishDiagnostics'']"

text \<open>Well-formed notifications of the three kinds the handlers inspect.\<close>

definition log_note :: "string \<Rightarrow> inbound" where
  "log_note t =
     Notification ''window/logMessage'' (JDict [(''type'', JInt 4), (''message'', JStr t)])"

definition show_note :: "string \<Rightarrow> inbound" where
  "show_note t =
     Notification ''window/showMessage'' (JDict [(''type'', JInt 3), (''message'', JStr t)])"

definition progress_note :: "string \<Rightarrow> string \<Rightarrow> inbound" where
  "progress_note kind t =
     Notification ''$/progress''
       (JDict [(''token'', JStr ''index-1''),
               (''value'', JDict [(''kind'', JStr kind), (''message'', JStr t)])])"

text \<open>
  \<open>analysis_complete\<close> follows \<open>found_source_files\<close>, and \<open>completions_available\<close> follows
  \<open>analysis_complete\<close> unless its \<open>set()\<close> is pending on the reader thread.
\<close>

definition flags_consistent :: "server \<Rightarrow> bool" where
  "flags_consistent s =
     ((found_source_files s \<longrightarrow> analysis_complete s) \<and>
      (analysis_complete s \<longrightarrow> completions_available s \<or> completions_pending s))"

text \<open>An initialize response that advertises document synchronization only.\<close>

definition sync_response :: json where
  "sync_response = JDict [(''capabilities'', JDict [(''textDocumentSync'', JInt 2)])]"

text \<open>
  The state in which \<open>_start_server\<close> waits for the analysis in a run of process 4242 on
  the repository \<open>/w\<close>: the handshake is done and the readiness signal is pending.
\<close>

definition waiting_server :: server where
  "waiting_server = snd (handshake (quiet_env sync_response) (new_server ''/w'' False))"

section \<open>Basic facts\<close>

subsection \<open>Substrings and case\<close>

lemma py_in_str_sublist: "py_in_str keyword t = sublist keyword t"
  by (induction t) (simp_all add: sublist_Cons_right)

lemma py_lower_append: "py_lower (p @ q) = py_lower p @ py_lower q"
  by (simp add: py_lower_def)

lemma length_py_lower: "length (py_lower t) = length t"
  by (simp add: py_lower_def)

lemma contains_ignoring_case_iff:
  "contains_ignoring_case keyword text = py_in_str (py_lower keyword) (py_lower text)"
proof
  assume "contains_ignoring_case keyword text"
  then obtain piece where "sublist piece text" and eq: "py_lower piece = py_lower keyword"
    by (auto simp: contains_ignoring_case_def list_ex_iff)
  then obtain p q where "text = p @ piece @ q"
    by (auto simp: sublist_def)
  then have "py_lower text = py_lower p @ py_lower keyword @ py_lower q"
    by (simp add: py_lower_append eq)
  then show "py_in_str (py_lower keyword) (py_lower text)"
    by (simp add: py_in_str_sublist)
next
  assume "py_in_str (py_lower keyword) (py_lower text)"
  then obtain p q where split: "py_lower text = p @ py_lower keyword @ q"
    by (auto simp: py_in_str_sublist sublist_def)
  define piece where "piece = take (length keyword) (drop (length p) text)"
  have "py_lower piece = take (length keyword) (drop (length p) (py_lower text))"
    by (simp add: piece_def py_lower_def take_map drop_map)
  also have "\<dots> = py_lower keyword"
    by (simp add: split length_py_lower)
  finally have "py_lower piece = py_lower keyword" .
  moreover have "sublist piece text"
    unfolding piece_def by (metis append_take_drop_id sublist_appendI sublist_order.dual_order.trans sublist_take)
  ultimately show "contains_ignoring_case keyword text"
    by (auto simp: contains_ignoring_case_def list_ex_iff)
qed

lemma keywords_lower:
  "\<forall>k \<in> set log_keywords. py_lower k = k"
  "\<forall>k \<in> set show_keywords. py_lower k = k"
  "\<forall>k \<in> set progress_keywords. py_lower k = k"
  by code_simp+

subsection \<open>The effect of the handlers on the fields\<close>

lemma logger_log_fields [simp]:
  "found_source_files (logger_log txt lvl s) = found_source_files s"
  "analysis_complete (logger_log txt lvl s) = analysis_complete s"
  "completions_available (logger_log txt lvl s) = completions_available s"
  "completions_pending (logger_log txt lvl s) = completions_pending s"
  "calls (logger_log txt lvl s) = calls s"
  "repository_root_path (logger_log txt lvl s) = repository_root_path s"
  "logged (logger_log txt lvl s) = logged s @ [(txt, lvl)]"
  by (simp_all add: logger_log_def)

lemma server_call_fields [simp]:
  "found_source_files (server_call c s) = found_source_files s"
  "analysis_complete (server_call c s) = analysis_complete s"
  "completions_available (server_call c s) = completions_available s"
  "completions_pending (server_call c s) = completions_pending s"
  "calls (server_call c s) = calls s @ [c]"
  "repository_root_path (server_call c s) = repository_root_path s"
  "logged (server_call c s) = logged s"
  by (simp_all add: server_call_def)

lemma mark_analysis_complete_fields [simp]:
  "found_source_files (mark_analysis_complete held s)"
  "analysis_complete (mark_analysis_complete held s)"
  "completions_available (mark_analysis_complete held s) = (\<not> held \<or> completions_available s)"
  "completions_pending (mark_analysis_complete held s) = (held \<or> completions_pending s)"
  "calls (mark_analysis_complete held s) = calls s"
  "repository_root_path (mark_analysis_complete held s) = repository_root_path s"
  "logged (mark_analysis_complete held s) = logged s"
  by (simp_all add: mark_analysis_complete_def Let_def)

lemma finish_handler_fields [simp]:
  "found_source_files (finish_handler s) = found_source_files s"
  "analysis_complete (finish_handler s) = analysis_complete s"
  "completions_available (finish_handler s) = (completions_available s \<or> completions_pending s)"
  "\<not> completions_pending (finish_handler s)"
  "calls (finish_handler s) = calls s"
  "repository_root_path (finish_handler s) = repository_root_path s"
  "logged (finish_handler s) = logged s"
  by (simp_all add: finish_handler_def)

lemma unlogged_fields [simp]:
  "found_source_files (unlogged s) = found_source_files s"
  "analysis_complete (unlogged s) = analysis_complete s"
  "completions_available (unlogged s) = completions_available s"
  "completions_pending (unlogged s) = completions_pending s"
  "calls (unlogged s) = calls s"
  "repository_root_path (unlogged s) = repository_root_path s"
  "logged (unlogged s) = []"
  by (simp_all add: unlogged_def)

lemma unlogged_steps [simp]:
  "unlogged (logger_log txt lvl s) = unlogged s"
  "unlogged (mark_analysis_complete held s) = mark_analysis_complete held (unlogged s)"
  "unlogged (finish_handler s) = finish_handler (unlogged s)"
  "unlogged (server_call c s) = server_call c (unlogged s)"
  by (simp_all add: unlogged_def logger_log_def mark_analysis_complete_def Let_def
      finish_handler_def server_call_def)

lemma finish_handler_idle: "\<not> completions_pending s \<Longrightarrow> finish_handler s = s"
  by (simp add: finish_handler_def)

lemma mark_analysis_complete_idle:
  "found_source_files s \<Longrightarrow> analysis_complete s \<Longrightarrow> completions_available s \<Longrightarrow>
     mark_analysis_complete False s = s"
  by (simp add: mark_analysis_complete_def)

lemma finish_held_handler:
  "\<not> completions_pending s \<Longrightarrow>
     finish_handler (mark_analysis_complete True s) = mark_analysis_complete False s"
  by (simp add: finish_handler_def mark_analysis_complete_def)

lemma unlogged_eqD:
  assumes "unlogged s = unlogged s'"
  shows "found_source_files s = found_source_files s'"
    and "analysis_complete s = analysis_complete s'"
    and "completions_available s = completions_available s'"
    and "completions_pending s = completions_pending s'"
    and "calls s = calls s'"
    and "repository_root_path s = repository_root_path s'"
  using assms unlogged_fields by metis+

lemma window_log_message_steps_unlogged:
  "unlogged (snd (window_log_message_steps held msg s)) =
     (if message_test log_keywords msg = Inr True
      then mark_analysis_complete held (unlogged s) else unlogged s)"
  by (cases msg)
    (auto simp: window_log_message_steps_def message_test_def Let_def split: sum.splits)

lemma window_show_message_steps_unlogged:
  "unlogged (snd (window_show_message_steps held msg s)) =
     (if message_test show_keywords msg = Inr True \<and> \<not> found_source_files s
      then mark_analysis_complete held (unlogged s) else unlogged s)"
  by (cases msg)
    (auto simp: window_show_message_steps_def message_test_def Let_def split: sum.splits)

lemma progress_notification_steps_unlogged:
  "unlogged (snd (progress_notification_steps held params s)) =
     (if progress_test params = Inr True \<and> \<not> found_source_files s
      then mark_analysis_complete held (unlogged s) else unlogged s)"
  by (cases params)
    (auto simp: progress_notification_steps_def progress_test_def Let_def split: sum.splits)

lemma deliver_steps_unlogged:
  "unlogged (deliver_steps held m s) =
     (if sets_events m s then mark_analysis_complete held (unlogged (finish_handler s))
      else unlogged (finish_handler s))"
  by (cases m) (auto simp: deliver_steps_def Let_def fires_def sets_events_def
      window_log_message_steps_unlogged window_show_message_steps_unlogged
      progress_notification_steps_unlogged)

text \<open>The fields after a handler, read off the state without its log.\<close>

lemma flags_of_unlogged:
  assumes "unlogged s' = (if c then mark_analysis_complete held (unlogged s) else unlogged s)"
  shows "found_source_files s' = (c \<or> found_source_files s)"
    and "analysis_complete s' = (c \<or> analysis_complete s)"
    and "completions_available s' = (c \<and> \<not> held \<or> completions_available s)"
    and "completions_pending s' = (c \<and> held \<or> completions_pending s)"
    and "calls s' = calls s"
    and "repository_root_path s' = repository_root_path s"
proof -
  have "found_source_files (unlogged s') = (c \<or> found_source_files s)"
    "analysis_complete (unlogged s') = (c \<or> analysis_complete s)"
    "completions_available (unlogged s') = (c \<and> \<not> held \<or> completions_available s)"
    "completions_pending (unlogged s') = (c \<and> held \<or> completions_pending s)"
    "calls (unlogged s') = calls s"
    "repository_root_path (unlogged s') = repository_root_path s"
    unfolding assms by auto
  then show "found_source_files s' = (c \<or> found_source_files s)"
    and "analysis_complete s' = (c \<or> analysis_complete s)"
    and "completions_available s' = (c \<and> \<not> held \<or> completions_available s)"
    and "completions_pending s' = (c \<and> held \<or> completions_pending s)"
    and "calls s' = calls s"
    and "repository_root_path s' = repository_root_path s"
    by simp_all
qed

lemma window_log_message_flags:
  "found_source_files (snd (window_log_message msg s)) =
     (message_test log_keywords msg = Inr True \<or> found_source_files s)"
  "analysis_complete (snd (window_log_message msg s)) =
     (message_test log_keywords msg = Inr True \<or> analysis_complete s)"
  "completions_available (snd (window_log_message msg s)) =
     (message_test log_keywords msg = Inr True \<or> completions_available s)"
  using flags_of_unlogged [OF window_log_message_steps_unlogged [of False msg s]]
  by (simp_all add: window_log_message_def)


lemma progress_notification_flags:
  "found_source_files (snd (progress_notification params s)) =
     (progress_test params = Inr True \<or> found_source_files s)"
  "analysis_complete (snd (progress_notification params s)) =
     (progress_test params = Inr True \<and> \<not> found_source_files s \<or> analysis_complete s)"
  "completions_available (snd (progress_notification params s)) =
     (progress_test params = Inr True \<and> \<not> found_source_files s
      \<or> completions_available s)"
  using flags_of_unlogged [OF progress_notification_steps_unlogged [of False params s]]
  by (auto simp: progress_notification_def)

lemma deliver_steps_flags:
  "found_source_files (deliver_steps held m s) = (sets_events m s \<or> found_source_files s)"
  "analysis_complete (deliver_steps held m s) = (sets_events m s \<or> analysis_complete s)"
  "completions_available (deliver_steps held m s) =
     (sets_events m s \<and> \<not> held \<or> completions_available s \<or> completions_pending s)"
  "completions_pending (deliver_steps held m s) = (sets_events m s \<and> held)"
  "calls (deliver_steps held m s) = calls s"
  "repository_root_path (deliver_steps held m s) = repository_root_path s"
  using flags_of_unlogged [OF deliver_steps_unlogged [of held m s]] by simp_all

lemma deliver_flags:
  "found_source_files (deliver m s) = (sets_events m s \<or> found_source_files s)"
  "analysis_complete (deliver m s) = (sets_events m s \<or> analysis_complete s)"
  "completions_available (deliver m s) =
     (sets_events m s \<or> completions_available s \<or> completions_pending s)"
  "\<not> completions_pending (deliver m s)"
  "calls (deliver m s) = calls s"
  "repository_root_path (deliver m s) = repository_root_path s"
  by (simp_all add: deliver_def deliver_steps_flags)

lemma deliver_unlogged:
  "unlogged (deliver m s) =
     (if sets_events m s then mark_analysis_complete False (unlogged (finish_handler s))
      else unlogged (finish_handler s))"
  by (simp add: deliver_def deliver_steps_unlogged)

lemma sets_events_fires: "sets_events m s \<Longrightarrow> fires m"
  by (simp add: sets_events_def)

lemma fires_sets_events: "fires m \<Longrightarrow> \<not> found_source_files s \<Longrightarrow> sets_events m s"
  by (simp add: sets_events_def)

lemma sets_events_unlogged [simp]: "sets_events m (unlogged s) = sets_events m s"
  by (simp add: sets_events_def)

subsection \<open>What every step preserves\<close>

lemma deliver_all_preserves:
  assumes "\<And>m s. m \<in> set ms \<Longrightarrow> P s \<Longrightarrow> P (deliver m s)" and "P s"
  shows "P (deliver_all ms s)"
  using assms by (induction ms arbitrary: s) auto

lemma analysis_complete_wait_preserves:
  assumes "\<And>m s. m \<in> set ms \<Longrightarrow> P s \<Longrightarrow> P (deliver_steps early m s)" and "P s"
  shows "P (snd (analysis_complete_wait early ms s))"
  using assms by (induction ms arbitrary: s) auto

lemma analysis_complete_wait_result:
  "fst (analysis_complete_wait early ms s)
     = analysis_complete (snd (analysis_complete_wait early ms s))"
  by (induction ms arbitrary: s) auto

lemma py_in_defined: "py_in key v = Inr b \<Longrightarrow> \<exists>b'. py_in key' v = Inr b'"
  by (cases v) auto

lemma warn_if_missing_preserves:
  assumes "\<And>t l s. P s \<Longrightarrow> P (logger_log t l s)" and "P s"
  shows "P (snd (warn_if_missing key warning capabilities s))"
  using assms by (auto simp: warn_if_missing_def split: sum.splits)

lemma complete_handshake_preserves:
  assumes log: "\<And>t l s. P s \<Longrightarrow> P (logger_log t l s)"
    and call: "\<And>c s. P s \<Longrightarrow> P (server_call c s)" and "P s"
  shows "P (snd (complete_handshake capabilities s))"
proof -
  have a: "P (snd (warn_if_missing k w capabilities s'))" if "P s'" for k w s'
    using warn_if_missing_preserves [of P, OF log that] .
  show ?thesis
    using a [OF \<open>P s\<close>] a call
    by (auto simp: complete_handshake_def split: prod.splits option.splits) (metis snd_conv)+
qed

lemma register_handlers_preserves:
  assumes "\<And>c s. P s \<Longrightarrow> P (server_call c s)" and "P s"
  shows "P (register_handlers s)"
  using assms by (simp add: register_handlers_def)

lemma handshake_preserves:
  assumes dlv: "\<And>m s. m \<in> set (during_initialize env) \<Longrightarrow> P s \<Longrightarrow> P (deliver m s)"
    and log: "\<And>t l s. P s \<Longrightarrow> P (logger_log t l s)"
    and call: "\<And>c s. P s \<Longrightarrow> P (server_call c s)" and "P s"
  shows "P (snd (handshake env s))"
proof -
  define s3 where
    "s3 = server_call Start
            (logger_log [Lit ''Starting sourcekit-lsp server process''] INFO
              (register_handlers s))"
  have s3: "P s3"
    unfolding s3_def by (intro call log register_handlers_preserves [of P] \<open>P s\<close>)
  have s6: "P (logger_log t6 l6 (deliver_all (during_initialize env)
                (server_call c (logger_log t4 l4 s3))))" for t6 l6 c t4 l4
    by (intro log deliver_all_preserves [of _ P] call s3 dlv)
  have tail: "P (snd (complete_handshake capabilities s'))" if "P s'" for capabilities s'
    using complete_handshake_preserves [of P, OF log call that] .
  show ?thesis
    using s3 s6 tail [OF s6]
    by (auto simp: handshake_def Let_def s3_def split: sum.splits)
qed

lemma await_analysis_preserves:
  assumes dlv: "\<And>m s. m \<in> set ms \<Longrightarrow> P s \<Longrightarrow> P (deliver_steps early m s)"
    and log: "\<And>t l s. P s \<Longrightarrow> P (logger_log t l s)"
    and fallback: "\<And>s. P s \<Longrightarrow> P (s\<lparr>analysis_complete := True, completions_available := True\<rparr>)"
    and "P s"
  shows "P (await_analysis early ms s)"
proof -
  have "P (snd (analysis_complete_wait early ms (logger_log t l s)))" for t l
    by (intro analysis_complete_wait_preserves [of _ P] log \<open>P s\<close> dlv)
  then show ?thesis
    by (auto simp: await_analysis_def Let_def split: prod.splits intro!: log fallback)
      (metis snd_conv)+
qed


subsection \<open>Consistent flags\<close>


lemma flags_consistent_deliver_steps:
  "flags_consistent s \<Longrightarrow> flags_consistent (deliver_steps held m s)"
  by (auto simp: flags_consistent_def deliver_steps_flags)

lemma flags_consistent_deliver: "flags_consistent s \<Longrightarrow> flags_consistent (deliver m s)"
  by (simp add: deliver_def flags_consistent_deliver_steps)


section \<open>Ignored directories are matched by name\<close>

text \<open>
  C9: \<open>is_ignored_dirname\<close> compares the directory name with each entry by string
  equality and does no glob matching. It returns \<open>True\<close> exactly for the names the
  superclass ignores and for the eight names \<open>.build\<close>, \<open>.swiftpm\<close>, \<open>build\<close>,
  \<open>DerivedData\<close>, \<open>.DS_Store\<close>, \<open>xcuserdata\<close>, \<open>*.xcworkspace\<close> and \<open>*.xcodeproj\<close> taken
  literally; for every other name, such as \<open>App.xcodeproj\<close> or \<open>App.xcworkspace\<close>, it
  returns what the superclass returns.
\<close>

theorem is_ignored_dirname_exact_names:
  "is_ignored_dirname super_is_ignored dirname =
     (super_is_ignored dirname \<or>
      dirname \<in> {''.build'', ''.swiftpm'', ''build'', ''DerivedData'', ''.DS_Store'',
                  ''xcuserdata'', ''*.xcworkspace'', ''*.xcodeproj''})
   \<and> is_ignored_dirname super_is_ignored ''App.xcodeproj'' = super_is_ignored ''App.xcodeproj''
   \<and> is_ignored_dirname super_is_ignored ''App.xcworkspace'' =
       super_is_ignored ''App.xcworkspace''"
  by (simp add: is_ignored_dirname_def swift_ignored_dirnames_def)

section \<open>The configuration reply\<close>

text \<open>
  C6: a \<open>workspace/configuration\<close> request whose \<open>items\<close> entry is a list of \<open>n\<close> items is
  answered with a list of exactly \<open>n\<close> empty configuration objects.
\<close>

theorem workspace_configuration_reply:
  assumes "map_of params ''items'' = Some (JList items)"
  shows "workspace_configuration_handler (JDict params) =
           Inr (JList (replicate (length items) (JDict [])))"
  using assms by (simp add: workspace_configuration_handler_def)

theorem workspace_configuration_reply_witness:
  "map_of [(''items'', JList [JDict [(''section'', JStr ''swift'')], JDict [], JNull])] ''items''
     = Some (JList [JDict [(''section'', JStr ''swift'')], JDict [], JNull])
   \<and> workspace_configuration_handler
       (JDict [(''items'', JList [JDict [(''section'', JStr ''swift'')], JDict [], JNull])])
     = Inr (JList [JDict [], JDict [], JDict []])"
  using workspace_configuration_reply
    [of "[(''items'', JList [JDict [(''section'', JStr ''swift'')], JDict [], JNull])]"
        "[JDict [(''section'', JStr ''swift'')], JDict [], JNull]"]
  by (simp add: numeral_3_eq_3)

subsection \<open>The wait\<close>

lemma analysis_complete_wait_quiet:
  assumes "\<not> analysis_complete s" and "\<forall>m \<in> set ms. \<not> fires m"
  shows "\<not> fst (analysis_complete_wait early ms s)"
proof -
  have "\<not> analysis_complete (snd (analysis_complete_wait early ms s))"
    by (rule analysis_complete_wait_preserves [of _ "\<lambda>s'. \<not> analysis_complete s'"])
      (use assms in \<open>auto simp: deliver_steps_flags dest: sets_events_fires\<close>)
  then show ?thesis
    by (simp add: analysis_complete_wait_result)
qed


lemma await_analysis_timeout:
  assumes "\<not> analysis_complete s" and "\<forall>m \<in> set ms. \<not> fires m"
  shows "analysis_complete (await_analysis early ms s)"
    and "completions_available (await_analysis early ms s)"
    and "last (logged (await_analysis early ms s)) =
           ([Lit ''Timeout (15.0s) waiting for SourceKit-LSP analysis completion, proceeding anyway''],
            WARNING)"
proof -
  let ?w = "analysis_complete_wait early ms
    (logger_log [Lit ''Waiting for SourceKit-LSP to complete initial workspace analysis...'']
       INFO s)"
  have "\<not> fst ?w"
    using assms by (intro analysis_complete_wait_quiet) simp_all
  then obtain s2 where w: "?w = (False, s2)"
    by (cases ?w) auto
  show "analysis_complete (await_analysis early ms s)"
    and "completions_available (await_analysis early ms s)"
    and "last (logged (await_analysis early ms s)) =
           ([Lit ''Timeout (15.0s) waiting for SourceKit-LSP analysis completion, proceeding anyway''],
            WARNING)"
    by (simp_all add: await_analysis_def Let_def w)
qed



section \<open>The two events are set one after the other\<close>




subsection \<open>Keyword tests\<close>

lemma any_keyword_in_contains:
  assumes "keyword \<in> set keywords" and "py_lower keyword = keyword"
    and "contains_ignoring_case keyword t"
  shows "any_keyword_in keywords (JStr t) = Inr True"
proof -
  have "py_in_str keyword (py_lower t)"
    using assms(2,3) by (simp add: contains_ignoring_case_iff)
  with assms(1) show ?thesis
    by (auto simp: any_keyword_in_def list_ex_iff)
qed

section \<open>Progress notifications\<close>

text \<open>
  C5: a \<open>$/progress\<close> notification whose value has kind \<open>end\<close> and whose message
  contains, ignoring case, one of \<open>indexing\<close>, \<open>building\<close>, \<open>resolving\<close> (for instance
  \<open>building dependencies\<close>) leaves the readiness signal set and raises nothing; with any
  other kind, such as \<open>begin\<close>, the same message leaves the server object exactly as it
  was. The handler is entered in a state where \<open>found_source_files\<close> implies the signal:
  only the handlers set \<open>found_source_files\<close>, each right before it sets the signal.
\<close>

theorem progress_end_sets_readiness:
  assumes "found_source_files s \<longrightarrow> analysis_complete s"
    and "py_get params ''value'' (JDict []) = Inr v"
    and "py_get v ''kind'' (JStr []) = Inr kind"
    and "py_get v ''message'' (JStr []) = Inr (JStr t)"
    and "keyword \<in> {''indexing'', ''building'', ''resolving''}"
    and "contains_ignoring_case keyword t"
  shows "(kind = JStr ''end'' \<longrightarrow>
            fst (progress_notification params s) = None
            \<and> analysis_complete (snd (progress_notification params s)))
       \<and> (kind \<noteq> JStr ''end'' \<longrightarrow> progress_notification params s = (None, s))"
proof -
  have k: "keyword \<in> set progress_keywords"
    using assms(5) by (auto simp: progress_keywords_def)
  then have "py_lower keyword = keyword"
    using keywords_lower(3) by blast
  then have any: "any_keyword_in progress_keywords (JStr t) = Inr True"
    using any_keyword_in_contains [OF k _ assms(6)] by simp
  note consistent = assms(1)
  have "progress_test params = Inr True" if "kind = JStr ''end''"
    using assms(2-4) any that by (simp add: progress_test_def)
  then have "analysis_complete (snd (progress_notification params s))" if "kind = JStr ''end''"
    using consistent that by (auto simp: progress_notification_flags)
  moreover have "fst (progress_notification params s) = None" if "kind = JStr ''end''"
    using assms(2-4) any that
    by (simp add: progress_notification_def progress_notification_steps_def Let_def)
  moreover have "progress_notification params s = (None, s)" if "kind \<noteq> JStr ''end''"
    using assms(2-4) that
    by (simp add: progress_notification_def progress_notification_steps_def)
  ultimately show ?thesis
    by blast
qed

theorem progress_end_sets_readiness_witness:
  "\<not> found_source_files waiting_server
   \<and> \<not> analysis_complete waiting_server
   \<and> contains_ignoring_case ''building'' ''building dependencies''
   \<and> fst (progress_notification
            (JDict [(''value'', JDict [(''kind'', JStr ''end''),
                                       (''message'', JStr ''building dependencies'')])])
            waiting_server) = None
   \<and> analysis_complete
        (snd (progress_notification
               (JDict [(''value'', JDict [(''kind'', JStr ''end''),
                                          (''message'', JStr ''building dependencies'')])])
               waiting_server))
   \<and> progress_notification
        (JDict [(''value'', JDict [(''kind'', JStr ''begin''),
                                   (''message'', JStr ''building dependencies'')])])
        waiting_server = (None, waiting_server)"
proof -
  let ?s = "waiting_server"
  let ?e = "JDict [(''kind'', JStr ''end''), (''message'', JStr ''building dependencies'')]"
  let ?b = "JDict [(''kind'', JStr ''begin''), (''message'', JStr ''building dependencies'')]"
  have f: "\<not> found_source_files ?s" "\<not> analysis_complete ?s"
    by code_simp+
  then have r: "found_source_files ?s \<longrightarrow> analysis_complete ?s"
    by simp
  have c: "contains_ignoring_case ''building'' ''building dependencies''"
    unfolding contains_ignoring_case_iff by code_simp
  show ?thesis
    using progress_end_sets_readiness
            [of ?s "JDict [(''value'', ?e)]" ?e "JStr ''end''" "''building dependencies''"
                "''building''", OF r _ _ _ _ c]
          progress_end_sets_readiness
            [of ?s "JDict [(''value'', ?b)]" ?b "JStr ''begin''" "''building dependencies''"
                "''building''", OF r _ _ _ _ c]
          f c
    by simp
qed

section \<open>Log messages\<close>

text \<open>
  C7, as the claim states it, fails: \<open>package resolved\<close> is none of the keywords of
  \<open>window_log_message\<close>, so the message \<open>package resolved\<close> contains a claimed keyword and
  the handler only logs it.
\<close>

theorem log_message_package_resolved_counterexample:
  "contains_ignoring_case ''package resolved'' ''package resolved''
   \<and> window_log_message (JDict [(''message'', JStr ''package resolved'')])
        (new_server ''/w'' False)
     = (None, logger_log [Lit ''LSP: window/logMessage: '', Val (JStr ''package resolved'')]
                INFO (new_server ''/w'' False))
   \<and> \<not> analysis_complete
          (snd (window_log_message (JDict [(''message'', JStr ''package resolved'')])
                 (new_server ''/w'' False)))"
proof -
  have "contains_ignoring_case ''package resolved'' ''package resolved''"
    unfolding contains_ignoring_case_iff by code_simp
  moreover have "window_log_message (JDict [(''message'', JStr ''package resolved'')])
        (new_server ''/w'' False)
     = (None, logger_log [Lit ''LSP: window/logMessage: '', Val (JStr ''package resolved'')]
                INFO (new_server ''/w'' False))"
    by code_simp
  ultimately show ?thesis
    by (simp add: new_server_def)
qed

text \<open>
  C7, amended: a \<open>window/logMessage\<close> notification whose message contains, ignoring case,
  any of \<open>indexing complete\<close>, \<open>finished indexing\<close>, \<open>build complete\<close>,
  \<open>compilation finished\<close> or \<open>swift package resolved\<close> makes the handler set the readiness
  signal, in every state; one keyword suffices.
\<close>

theorem log_message_keyword_sets_readiness:
  assumes "py_get msg ''message'' (JStr []) = Inr (JStr t)"
    and "keyword \<in> {''indexing complete'', ''finished indexing'', ''build complete'',
                     ''compilation finished'', ''swift package resolved''}"
    and "contains_ignoring_case keyword t"
  shows "fst (window_log_message msg s) = None
       \<and> analysis_complete (snd (window_log_message msg s))"
proof -
  have k: "keyword \<in> set log_keywords"
    using assms(2) by (auto simp: log_keywords_def)
  then have "py_lower keyword = keyword"
    using keywords_lower(1) by blast
  then have any: "any_keyword_in log_keywords (JStr t) = Inr True"
    using any_keyword_in_contains [OF k _ assms(3)] by simp
  then have "message_test log_keywords msg = Inr True"
    using assms(1) by (simp add: message_test_def)
  then have "analysis_complete (snd (window_log_message msg s))"
    by (simp add: window_log_message_flags)
  moreover have "fst (window_log_message msg s) = None"
    using assms(1) any by (simp add: window_log_message_def window_log_message_steps_def Let_def)
  ultimately show ?thesis
    by simp
qed

theorem log_message_keyword_sets_readiness_witness:
  "contains_ignoring_case ''swift package resolved'' ''Swift Package resolved in 2.1s''
   \<and> fst (window_log_message (JDict [(''message'', JStr ''Swift Package resolved in 2.1s'')])
           (new_server ''/w'' False)) = None
   \<and> analysis_complete
        (snd (window_log_message (JDict [(''message'', JStr ''Swift Package resolved in 2.1s'')])
               (new_server ''/w'' False)))"
proof -
  have c: "contains_ignoring_case ''swift package resolved'' ''Swift Package resolved in 2.1s''"
    unfolding contains_ignoring_case_iff by code_simp
  show ?thesis
    using log_message_keyword_sets_readiness
            [of "JDict [(''message'', JStr ''Swift Package resolved in 2.1s'')]"
                "''Swift Package resolved in 2.1s''" "''swift package resolved''"
                "new_server ''/w'' False", OF _ _ c] c
    by simp
qed

subsection \<open>Sequences of messages\<close>

lemma deliver_all_append: "deliver_all (xs @ ys) s = deliver_all ys (deliver_all xs s)"
  by (induction xs arbitrary: s) auto

lemma flags_consistent_deliver_all:
  "flags_consistent s \<Longrightarrow> flags_consistent (deliver_all ms s)"
  by (rule deliver_all_preserves [of _ flags_consistent]) (simp_all add: flags_consistent_deliver)

lemma deliver_settled:
  assumes "found_source_files s" "analysis_complete s" "completions_available s"
    and "\<not> completions_pending s"
  shows "unlogged (deliver m s) = unlogged s"
  using assms by (simp add: deliver_unlogged mark_analysis_complete_idle finish_handler_idle)

lemma deliver_all_settled:
  assumes "found_source_files s" "analysis_complete s" "completions_available s"
    and "\<not> completions_pending s"
  shows "unlogged (deliver_all ms s) = unlogged s"
  using assms
proof (induction ms arbitrary: s)
  case Nil
  show ?case by simp
next
  case (Cons m ms)
  have "unlogged (deliver_all ms (deliver m s)) = unlogged (deliver m s)"
    using Cons.prems by (intro Cons.IH) (simp_all add: deliver_flags)
  then show ?case
    using Cons.prems by (simp add: deliver_settled)
qed

lemma deliver_all_quiet:
  assumes "\<forall>m \<in> set ms. \<not> fires m"
  shows "analysis_complete (deliver_all ms s) = analysis_complete s"
    and "found_source_files (deliver_all ms s) = found_source_files s"
proof -
  let ?P = "\<lambda>s'. analysis_complete s' = analysis_complete s
    \<and> found_source_files s' = found_source_files s"
  have "?P (deliver_all ms s)"
    by (rule deliver_all_preserves [of _ ?P])
      (use assms in \<open>auto simp: deliver_flags dest: sets_events_fires\<close>)
  then show "analysis_complete (deliver_all ms s) = analysis_complete s"
    and "found_source_files (deliver_all ms s) = found_source_files s"
    by simp_all
qed

lemma deliver_fires_settles:
  assumes "flags_consistent s" and "fires n"
  shows "found_source_files (deliver n s)" and "analysis_complete (deliver n s)"
    and "completions_available (deliver n s)" and "\<not> completions_pending (deliver n s)"
  using assms by (auto simp: deliver_flags flags_consistent_def sets_events_def)

lemma deliver_twice: "unlogged (deliver n (deliver n s)) = unlogged (deliver n s)"
proof (cases "sets_events n s")
  case True
  then have "found_source_files (deliver n s)" "analysis_complete (deliver n s)"
    "completions_available (deliver n s)" "\<not> completions_pending (deliver n s)"
    by (simp_all add: deliver_flags)
  then show ?thesis
    by (rule deliver_settled)
next
  case False
  then have "\<not> sets_events n (deliver n s)"
    by (simp add: sets_events_def deliver_flags)
  then show ?thesis
    by (simp add: deliver_unlogged [of n "deliver n s"] finish_handler_idle deliver_flags)
qed

section \<open>The readiness signal is a latch\<close>

text \<open>
  C3: for every sequence of notifications delivered to the log, show-message and progress
  handlers: no delivery ever unsets the readiness signal; from a state in which the
  signal is pending (so that \<open>found_source_files\<close>, which implies it, is false), the
  messages before the first one that fires leave it pending and that message sets it;
  whatever is delivered after a message that fires, firing or not, leaves the server
  object as that message left it, its log trail apart; and delivering a message twice has
  the effect of delivering it once. The handlers log every message they receive, so the
  log trail alone grows.
\<close>

theorem readiness_signal_is_a_latch:
  "(analysis_complete s \<longrightarrow> analysis_complete (deliver_all ms s))
   \<and> ((found_source_files s \<longrightarrow> analysis_complete s) \<and> \<not> analysis_complete s
        \<and> (\<forall>m \<in> set earlier. \<not> fires m) \<and> fires n
        \<longrightarrow> \<not> analysis_complete (deliver_all earlier s)
            \<and> analysis_complete (deliver_all (earlier @ [n]) s))
   \<and> (flags_consistent s \<and> fires n
        \<longrightarrow> unlogged (deliver_all (earlier @ n # later) s)
              = unlogged (deliver_all (earlier @ [n]) s))
   \<and> unlogged (deliver n (deliver n s)) = unlogged (deliver n s)"
proof (intro conjI impI)
  show "analysis_complete (deliver_all ms s)" if "analysis_complete s"
    by (rule deliver_all_preserves [of _ analysis_complete]) (simp_all add: deliver_flags that)
next
  assume a: "(found_source_files s \<longrightarrow> analysis_complete s) \<and> \<not> analysis_complete s
    \<and> (\<forall>m \<in> set earlier. \<not> fires m) \<and> fires n"
  then have quiet: "\<forall>m \<in> set earlier. \<not> fires m"
    by blast
  have before: "analysis_complete (deliver_all earlier s) = analysis_complete s"
    "found_source_files (deliver_all earlier s) = found_source_files s"
    by (rule deliver_all_quiet [OF quiet])+
  with a show "\<not> analysis_complete (deliver_all earlier s)"
    by simp
  have "sets_events n (deliver_all earlier s)"
    using a before by (intro fires_sets_events) auto
  then show "analysis_complete (deliver_all (earlier @ [n]) s)"
    by (simp add: deliver_all_append deliver_flags)
next
  assume a: "flags_consistent s \<and> fires n"
  then have "flags_consistent (deliver_all earlier s)"
    by (simp add: flags_consistent_deliver_all)
  then have "unlogged (deliver_all later (deliver n (deliver_all earlier s)))
      = unlogged (deliver n (deliver_all earlier s))"
    using a by (intro deliver_all_settled deliver_fires_settles) simp_all
  then show "unlogged (deliver_all (earlier @ n # later) s)
      = unlogged (deliver_all (earlier @ [n]) s)"
    by (simp add: deliver_all_append)
next
  show "unlogged (deliver n (deliver n s)) = unlogged (deliver n s)"
    by (rule deliver_twice)
qed

theorem readiness_signal_is_a_latch_witness:
  "flags_consistent waiting_server
   \<and> \<not> found_source_files waiting_server
   \<and> \<not> analysis_complete waiting_server
   \<and> \<not> fires (log_note ''sourcekit-lsp started'')
   \<and> fires (show_note ''Build succeeded'')
   \<and> \<not> analysis_complete (deliver_all [log_note ''sourcekit-lsp started''] waiting_server)
   \<and> analysis_complete
        (deliver_all ([log_note ''sourcekit-lsp started''] @ [show_note ''Build succeeded''])
           waiting_server)
   \<and> unlogged
        (deliver_all
           ([log_note ''sourcekit-lsp started''] @ show_note ''Build succeeded''
              # [progress_note ''end'' ''Indexing'', log_note ''Build complete''])
           waiting_server)
     = unlogged
         (deliver_all ([log_note ''sourcekit-lsp started''] @ [show_note ''Build succeeded''])
            waiting_server)
   \<and> analysis_complete
        (deliver_all [progress_note ''end'' ''Indexing'', log_note ''Build complete'']
           (deliver_all ([log_note ''sourcekit-lsp started''] @ [show_note ''Build succeeded''])
              waiting_server))
   \<and> unlogged (deliver (show_note ''Build succeeded'')
                 (deliver (show_note ''Build succeeded'') waiting_server))
     = unlogged (deliver (show_note ''Build succeeded'') waiting_server)"
proof -
  let ?s = "waiting_server"
  let ?e = "[log_note ''sourcekit-lsp started'']"
  let ?n = "show_note ''Build succeeded''"
  let ?l = "[progress_note ''end'' ''Indexing'', log_note ''Build complete'']"
  note T = readiness_signal_is_a_latch
  have s: "\<not> found_source_files ?s" "\<not> analysis_complete ?s"
    by code_simp+
  then have c: "flags_consistent ?s"
    by (simp add: flags_consistent_def)
  have e: "\<not> fires (log_note ''sourcekit-lsp started'')"
    by code_simp
  have n: "fires ?n"
    by code_simp
  have first: "\<not> analysis_complete (deliver_all ?e ?s)
      \<and> analysis_complete (deliver_all (?e @ [?n]) ?s)"
    using T [where s = ?s and earlier = ?e and n = ?n, THEN conjunct2, THEN conjunct1] s e n
    by simp
  have later: "unlogged (deliver_all (?e @ ?n # ?l) ?s) = unlogged (deliver_all (?e @ [?n]) ?s)"
    using T [where s = ?s and earlier = ?e and n = ?n and later = ?l,
        THEN conjunct2, THEN conjunct2, THEN conjunct1] c n
    by simp
  have mono: "analysis_complete (deliver_all ?l (deliver_all (?e @ [?n]) ?s))"
    using T [where s = "deliver_all (?e @ [?n]) ?s" and ms = ?l, THEN conjunct1] first
    by simp
  have twice: "unlogged (deliver ?n (deliver ?n ?s)) = unlogged (deliver ?n ?s)"
    by (rule T [where s = ?s and n = ?n, THEN conjunct2, THEN conjunct2, THEN conjunct2])
  show ?thesis
    using c s e n first later mono twice by (intro conjI) simp_all
qed

subsection \<open>The handshake\<close>

lemma calls_deliver_all: "calls (deliver_all ms s) = calls s"
  by (rule deliver_all_preserves [of _ "\<lambda>s'. calls s' = calls s"]) (simp_all add: deliver_flags)

lemma calls_analysis_complete_wait:
  "calls (snd (analysis_complete_wait early ms s)) = calls s"
  by (rule analysis_complete_wait_preserves [of _ "\<lambda>s'. calls s' = calls s"])
    (simp_all add: deliver_steps_flags)

lemma calls_register_handlers: "calls (register_handlers s) = calls s @ handler_registrations"
  by (simp add: register_handlers_def handler_registrations_def)

lemma warn_if_missing_defined:
  assumes "py_in key capabilities = Inr b"
  shows "fst (warn_if_missing key' warning capabilities s) = None"
    and "calls (snd (warn_if_missing key' warning capabilities s)) = calls s"
  using py_in_defined [OF assms, of key']
  by (auto simp: warn_if_missing_def)

lemma complete_handshake_defined:
  assumes "py_in key capabilities = Inr b"
  shows "fst (complete_handshake capabilities s) = None"
    and "calls (snd (complete_handshake capabilities s)) = calls s @ [NotifyInitialized (JDict [])]"
proof -
  let ?w1 = "warn_if_missing ''completionProvider''
      ''Warning: SourceKit-LSP did not advertise completionProvider capability'' capabilities s"
  let ?w2 = "warn_if_missing ''definitionProvider''
      ''Warning: SourceKit-LSP did not advertise definitionProvider capability'' capabilities
      (snd ?w1)"
  have 1: "fst ?w1 = None" "calls (snd ?w1) = calls s"
    by (rule warn_if_missing_defined [OF assms])+
  have 2: "fst ?w2 = None" "calls (snd ?w2) = calls s"
    using warn_if_missing_defined [OF assms, of "''definitionProvider''" _ "snd ?w1"] 1
    by simp_all
  have "complete_handshake capabilities s =
      (None, server_call (NotifyInitialized (JDict [])) (snd ?w2))"
    using 1(1) 2(1)
    by (cases ?w1; cases ?w2) (simp add: complete_handshake_def)
  with 2 show "fst (complete_handshake capabilities s) = None"
    and "calls (snd (complete_handshake capabilities s)) = calls s @ [NotifyInitialized (JDict [])]"
    by simp_all
qed

lemma handshake_calls:
  "calls (snd (handshake env s)) =
     calls s @ handler_registrations @ [Start] @
       (case get_initialize_params (getpid env) (as_uri env) (basename env)
               (repository_root_path s) of
          Inl e \<Rightarrow> []
        | Inr params \<Rightarrow>
            SendInitialize params #
              (if supports_text_document_sync (initialize_response env)
               then [NotifyInitialized (JDict [])] else []))"
  by (auto simp: handshake_def Let_def supports_text_document_sync_def calls_deliver_all
      calls_register_handlers register_handlers_preserves [of "\<lambda>s'. repository_root_path s' = repository_root_path s"]
      complete_handshake_defined split: sum.splits)

lemma handshake_result:
  assumes "get_initialize_params (getpid env) (as_uri env) (basename env)
             (repository_root_path s) = Inr params"
  shows "fst (handshake env s) =
     (case py_get (initialize_response env) ''capabilities'' (JDict []) of
        Inl e \<Rightarrow> Some e
      | Inr capabilities \<Rightarrow>
          (case py_in ''textDocumentSync'' capabilities of
             Inl e \<Rightarrow> Some e
           | Inr supported \<Rightarrow>
               if supported then None
               else Some (AssertionError ''SourceKit-LSP must support textDocumentSync'')))"
  using assms
  by (auto simp: handshake_def Let_def
      register_handlers_preserves [of "\<lambda>s'. repository_root_path s' = repository_root_path s"]
      complete_handshake_defined split: sum.splits)

lemma calls_await_analysis: "calls (await_analysis early ms s) = calls s"
  by (rule await_analysis_preserves [of _ "\<lambda>s'. calls s' = calls s"])
    (simp_all add: deliver_steps_flags)

lemma start_server_calls: "calls (snd (start_server env s)) = calls (snd (handshake env s))"
  by (cases "handshake env s") (auto simp: start_server_def calls_await_analysis split: option.splits)

lemma split_before_last:
  assumes "A @ [z] = xs @ y # ys" and "y \<notin> set A"
  shows "xs = A \<and> y = z \<and> ys = []"
  using assms by (cases ys rule: rev_cases) auto

lemma repository_root_path_register_handlers:
  "repository_root_path (register_handlers s) = repository_root_path s"
  by (simp add: register_handlers_def)

lemma handshake_ignores_during_wait: "handshake (env\<lparr>during_wait := arriving\<rparr>) s = handshake env s"
  by (simp add: handshake_def Let_def split: sum.splits)

section \<open>The order of the handshake\<close>

text \<open>
  C4: in every execution of \<open>_start_server\<close>, whenever the \<open>initialized\<close> notification is
  among the calls the execution makes on the transport, the initialize response passed
  the check for \<open>textDocumentSync\<close>, and what the execution did before it is the handler
  registration, the start of the transport and the (blocking) initialize request, in this
  order; the notification is sent once, with empty parameters, as the last call. On an
  execution where the check fails it is never sent.
\<close>

theorem initialized_only_after_validated_response:
  "(calls (snd (start_server env s)) = calls s @ before @ NotifyInitialized x # after
      \<longrightarrow> supports_text_document_sync (initialize_response env)
          \<and> (\<exists>params. get_initialize_params (getpid env) (as_uri env) (basename env)
                         (repository_root_path s) = Inr params
                       \<and> before = handler_registrations @ [Start, SendInitialize params])
          \<and> x = JDict [] \<and> after = [])
   \<and> (\<not> supports_text_document_sync (initialize_response env)
      \<longrightarrow> NotifyInitialized x \<notin> set (drop (length (calls s)) (calls (snd (start_server env s)))))"
proof -
  let ?gip = "get_initialize_params (getpid env) (as_uri env) (basename env)
    (repository_root_path s)"
  let ?new = "handler_registrations @ [Start] @
    (case ?gip of Inl e \<Rightarrow> []
     | Inr params \<Rightarrow> SendInitialize params #
         (if supports_text_document_sync (initialize_response env)
          then [NotifyInitialized (JDict [])] else []))"
  have calls: "calls (snd (start_server env s)) = calls s @ ?new"
    by (simp add: start_server_calls handshake_calls)
  have registrations: "NotifyInitialized x \<notin> set handler_registrations"
    by (simp add: handler_registrations_def)
  have never: "NotifyInitialized x \<notin> set ?new"
    if "\<not> supports_text_document_sync (initialize_response env)"
    using that registrations by (simp split: sum.splits)
  have after_response: "supports_text_document_sync (initialize_response env)
      \<and> (\<exists>params. ?gip = Inr params \<and> before = handler_registrations @ [Start, SendInitialize params])
      \<and> x = JDict [] \<and> after = []"
    if "calls (snd (start_server env s)) = calls s @ before @ NotifyInitialized x # after"
  proof -
    have new: "?new = before @ NotifyInitialized x # after"
      using that calls by simp
    then have mem: "NotifyInitialized x \<in> set ?new"
      by simp
    with never have sup: "supports_text_document_sync (initialize_response env)"
      by blast
    from mem registrations obtain params where gip: "?gip = Inr params"
      by (cases ?gip) auto
    have "(handler_registrations @ [Start, SendInitialize params]) @ [NotifyInitialized (JDict [])]
        = before @ NotifyInitialized x # after"
      using new sup gip by simp
    moreover have "NotifyInitialized x \<notin> set (handler_registrations @ [Start, SendInitialize params])"
      using registrations by simp
    ultimately have "before = handler_registrations @ [Start, SendInitialize params]
        \<and> NotifyInitialized x = NotifyInitialized (JDict []) \<and> after = []"
      by (rule split_before_last)
    with sup gip show ?thesis
      by simp
  qed
  have "drop (length (calls s)) (calls (snd (start_server env s))) = ?new"
    unfolding calls by simp
  with never have "\<not> supports_text_document_sync (initialize_response env)
      \<longrightarrow> NotifyInitialized x \<notin> set (drop (length (calls s)) (calls (snd (start_server env s))))"
    by simp
  with after_response show ?thesis
    by blast
qed

lemma get_initialize_params_of_w:
  "get_initialize_params 4242 posix_as_uri posix_basename ''/w'' = Inr params_of_w"
  by (simp add: get_initialize_params_def posix_as_uri_def posix_basename_def params_of_w_def)

lemma quiet_env_fields [simp]:
  "getpid (quiet_env response) = 4242"
  "as_uri (quiet_env response) = posix_as_uri"
  "basename (quiet_env response) = posix_basename"
  "initialize_response (quiet_env response) = response"
  "during_initialize (quiet_env response) = []"
  "during_wait (quiet_env response) = []"
  by (simp_all add: quiet_env_def)

lemma example_responses:
  "supports_text_document_sync sync_response"
  "\<not> supports_text_document_sync completion_only_response"
  "py_get completion_only_response ''capabilities'' (JDict [])
     = Inr (JDict [(''completionProvider'', JDict [])])"
  by (simp_all add: supports_text_document_sync_def sync_response_def
      completion_only_response_def)

theorem initialized_only_after_validated_response_witness:
  "calls (snd (start_server (quiet_env sync_response) (new_server ''/w'' False)))
     = calls (new_server ''/w'' False)
       @ (handler_registrations @ [Start, SendInitialize params_of_w])
       @ NotifyInitialized (JDict []) # []
   \<and> supports_text_document_sync (initialize_response (quiet_env sync_response))
   \<and> get_initialize_params (getpid (quiet_env sync_response)) (as_uri (quiet_env sync_response))
        (basename (quiet_env sync_response)) (repository_root_path (new_server ''/w'' False))
       = Inr params_of_w
   \<and> \<not> supports_text_document_sync (initialize_response (quiet_env completion_only_response))
   \<and> NotifyInitialized (JDict [])
       \<notin> set (drop (length (calls (new_server ''/w'' False)))
                (calls (snd (start_server (quiet_env completion_only_response)
                              (new_server ''/w'' False)))))"
proof -
  let ?s = "new_server ''/w'' False"
  have gip: "get_initialize_params 4242 posix_as_uri posix_basename (repository_root_path ?s)
      = Inr params_of_w"
    by (simp add: get_initialize_params_of_w new_server_def)
  have run: "calls (snd (start_server (quiet_env sync_response) ?s))
      = calls ?s @ (handler_registrations @ [Start, SendInitialize params_of_w])
        @ NotifyInitialized (JDict []) # []"
    by (simp add: start_server_calls handshake_calls gip example_responses)
  show ?thesis
    using initialized_only_after_validated_response
        [of "quiet_env sync_response" ?s "handler_registrations @ [Start, SendInitialize params_of_w]"
            "JDict []" "[]"]
      initialized_only_after_validated_response
        [of "quiet_env completion_only_response" ?s _ "JDict []"]
      run gip example_responses
    by simp
qed

subsection \<open>Failed and timed-out runs\<close>

lemma start_server_failed:
  assumes "fst (handshake env s) = Some e"
  shows "start_server env s = handshake env s"
  using assms by (cases "handshake env s") (simp add: start_server_def)

lemma start_server_passed:
  assumes "fst (handshake env s) = None"
  shows "start_server env s
    = (None, await_analysis (returns_early env) (during_wait env) (snd (handshake env s)))"
  using assms by (cases "handshake env s") (simp add: start_server_def)

lemma handshake_rejected_log:
  assumes "get_initialize_params (getpid env) (as_uri env) (basename env)
             (repository_root_path s) = Inr params"
    and "py_get (initialize_response env) ''capabilities'' (JDict []) = Inr capabilities"
    and "py_in ''textDocumentSync'' capabilities = Inr False"
  shows "last (logged (snd (handshake env s))) =
           ([Lit ''Received initialize response from SourceKit-LSP server: '',
             Val (initialize_response env)], INFO)"
  using assms by (simp add: handshake_def Let_def repository_root_path_register_handlers)

section \<open>A response without document synchronization\<close>

text \<open>
  C2: whenever the capabilities mapping of the initialize response (the empty mapping,
  when the response has none) lacks \<open>textDocumentSync\<close>, \<open>_start_server\<close> raises the
  \<open>AssertionError\<close> of line 339 to its caller. The initialize request, sent once, is the
  last call on the transport, so \<open>initialized\<close> is not sent and nothing is retried; the
  log ends with the entry for the received response, and the outcome does not depend
  on what would have arrived during the readiness wait, which never begins.
\<close>

theorem missing_text_document_sync_is_fatal:
  assumes "get_initialize_params (getpid env) (as_uri env) (basename env)
             (repository_root_path s) = Inr params"
    and "py_get (initialize_response env) ''capabilities'' (JDict []) = Inr (JDict capabilities)"
    and "''textDocumentSync'' \<notin> fst ` set capabilities"
  shows "fst (start_server env s)
           = Some (AssertionError ''SourceKit-LSP must support textDocumentSync'')
       \<and> calls (snd (start_server env s))
           = calls s @ handler_registrations @ [Start, SendInitialize params]
       \<and> last (logged (snd (start_server env s)))
           = ([Lit ''Received initialize response from SourceKit-LSP server: '',
               Val (initialize_response env)], INFO)
       \<and> start_server (env\<lparr>during_wait := arriving\<rparr>) s = start_server env s"
proof -
  have missing: "py_in ''textDocumentSync'' (JDict capabilities) = Inr False"
    using assms(3) by simp
  have failed: "fst (handshake env s)
      = Some (AssertionError ''SourceKit-LSP must support textDocumentSync'')"
    using assms(2) missing by (simp add: handshake_result [OF assms(1)])
  then have run: "start_server env s = handshake env s"
    by (rule start_server_failed)
  have "fst (handshake (env\<lparr>during_wait := arriving\<rparr>) s)
      = Some (AssertionError ''SourceKit-LSP must support textDocumentSync'')"
    using failed by (simp add: handshake_ignores_during_wait)
  then have "start_server (env\<lparr>during_wait := arriving\<rparr>) s = handshake env s"
    using start_server_failed [of "env\<lparr>during_wait := arriving\<rparr>" s]
    by (simp add: handshake_ignores_during_wait)
  moreover have "calls (snd (handshake env s))
      = calls s @ handler_registrations @ [Start, SendInitialize params]"
    using assms(1,2) missing by (simp add: handshake_calls supports_text_document_sync_def)
  moreover note handshake_rejected_log [OF assms(1,2) missing] failed
  ultimately show ?thesis
    by (simp add: run)
qed

theorem missing_text_document_sync_is_fatal_witness:
  "get_initialize_params (getpid (quiet_env completion_only_response))
       (as_uri (quiet_env completion_only_response))
       (basename (quiet_env completion_only_response))
       (repository_root_path (new_server ''/w'' False)) = Inr params_of_w
   \<and> py_get (initialize_response (quiet_env completion_only_response)) ''capabilities'' (JDict [])
       = Inr (JDict [(''completionProvider'', JDict [])])
   \<and> ''textDocumentSync'' \<notin> fst ` set [(''completionProvider'', JDict [])]
   \<and> fst (start_server (quiet_env completion_only_response) (new_server ''/w'' False))
       = Some (AssertionError ''SourceKit-LSP must support textDocumentSync'')
   \<and> calls (snd (start_server (quiet_env completion_only_response) (new_server ''/w'' False)))
       = calls (new_server ''/w'' False) @ handler_registrations
         @ [Start, SendInitialize params_of_w]
   \<and> last (logged (snd (start_server (quiet_env completion_only_response)
                          (new_server ''/w'' False))))
       = ([Lit ''Received initialize response from SourceKit-LSP server: '',
           Val (initialize_response (quiet_env completion_only_response))], INFO)
   \<and> start_server ((quiet_env completion_only_response)
                      \<lparr>during_wait := [log_note ''Build complete'']\<rparr>)
        (new_server ''/w'' False)
       = start_server (quiet_env completion_only_response) (new_server ''/w'' False)"
proof -
  let ?s = "new_server ''/w'' False"
  let ?env = "quiet_env completion_only_response"
  have gip: "get_initialize_params (getpid ?env) (as_uri ?env) (basename ?env)
      (repository_root_path ?s) = Inr params_of_w"
    by (simp add: get_initialize_params_of_w new_server_def)
  have caps: "py_get (initialize_response ?env) ''capabilities'' (JDict [])
      = Inr (JDict [(''completionProvider'', JDict [])])"
    by (simp add: example_responses)
  have missing: "''textDocumentSync'' \<notin> fst ` set [(''completionProvider'', JDict [])]"
    by simp
  show ?thesis
    using missing_text_document_sync_is_fatal
        [OF gip caps missing, of "[log_note ''Build complete'']"] gip caps missing
    by simp
qed

section \<open>The timeout fallback\<close>

text \<open>
  C1: when the handshake succeeds, the readiness signal is pending and no message that
  arrives before the timeout of the wait fires a handler, \<open>_start_server\<close> returns normally
  with the readiness signal set, and the last thing it logged is the timeout warning.
  The wait is a total function of the messages that arrive within the timeout.
\<close>

theorem timeout_forces_readiness:
  assumes "get_initialize_params (getpid env) (as_uri env) (basename env)
             (repository_root_path s) = Inr params"
    and "supports_text_document_sync (initialize_response env)"
    and "\<not> analysis_complete s"
    and "\<forall>m \<in> set (during_initialize env @ during_wait env). \<not> fires m"
  shows "fst (start_server env s) = None
       \<and> analysis_complete (snd (start_server env s))
       \<and> last (logged (snd (start_server env s)))
           = ([Lit ''Timeout (15.0s) waiting for SourceKit-LSP analysis completion, proceeding anyway''],
              WARNING)"
proof -
  obtain capabilities where "py_get (initialize_response env) ''capabilities'' (JDict [])
      = Inr capabilities" and "py_in ''textDocumentSync'' capabilities = Inr True"
    using assms(2) by (auto simp: supports_text_document_sync_def split: sum.splits)
  then have passed: "fst (handshake env s) = None"
    by (simp add: handshake_result [OF assms(1)])
  have pending: "\<not> analysis_complete (snd (handshake env s))"
    by (rule handshake_preserves [of env "\<lambda>s'. \<not> analysis_complete s'"])
      (use assms(3,4) in \<open>auto simp: deliver_flags dest: sets_events_fires\<close>)
  have quiet: "\<forall>m \<in> set (during_wait env). \<not> fires m"
    using assms(4) by simp
  show ?thesis
    using await_analysis_timeout(1,3) [OF pending quiet]
    by (simp add: start_server_passed [OF passed])
qed

theorem timeout_forces_readiness_witness:
  "get_initialize_params
       (getpid ((quiet_env sync_response)
          \<lparr>during_wait := [log_note ''sourcekit-lsp started'', progress_note ''begin'' ''Indexing'']\<rparr>))
       (as_uri ((quiet_env sync_response)
          \<lparr>during_wait := [log_note ''sourcekit-lsp started'', progress_note ''begin'' ''Indexing'']\<rparr>))
       (basename ((quiet_env sync_response)
          \<lparr>during_wait := [log_note ''sourcekit-lsp started'', progress_note ''begin'' ''Indexing'']\<rparr>))
       (repository_root_path (new_server ''/w'' False)) = Inr params_of_w
   \<and> supports_text_document_sync sync_response
   \<and> \<not> analysis_complete (new_server ''/w'' False)
   \<and> \<not> fires (log_note ''sourcekit-lsp started'')
   \<and> \<not> fires (progress_note ''begin'' ''Indexing'')
   \<and> fst (start_server
            ((quiet_env sync_response)
               \<lparr>during_wait := [log_note ''sourcekit-lsp started'',
                                 progress_note ''begin'' ''Indexing'']\<rparr>)
            (new_server ''/w'' False)) = None
   \<and> analysis_complete
        (snd (start_server
               ((quiet_env sync_response)
                  \<lparr>during_wait := [log_note ''sourcekit-lsp started'',
                                    progress_note ''begin'' ''Indexing'']\<rparr>)
               (new_server ''/w'' False)))
   \<and> last (logged
        (snd (start_server
               ((quiet_env sync_response)
                  \<lparr>during_wait := [log_note ''sourcekit-lsp started'',
                                    progress_note ''begin'' ''Indexing'']\<rparr>)
               (new_server ''/w'' False))))
       = ([Lit ''Timeout (15.0s) waiting for SourceKit-LSP analysis completion, proceeding anyway''],
          WARNING)"
proof -
  let ?s = "new_server ''/w'' False"
  let ?env = "(quiet_env sync_response)
    \<lparr>during_wait := [log_note ''sourcekit-lsp started'', progress_note ''begin'' ''Indexing'']\<rparr>"
  have gip: "get_initialize_params (getpid ?env) (as_uri ?env) (basename ?env)
      (repository_root_path ?s) = Inr params_of_w"
    by (simp add: get_initialize_params_of_w new_server_def)
  have sup: "supports_text_document_sync (initialize_response ?env)"
    by (simp add: example_responses)
  have s: "\<not> analysis_complete ?s"
    by (simp add: new_server_def)
  have a: "\<not> fires (log_note ''sourcekit-lsp started'')"
    by code_simp
  have b: "\<not> fires (progress_note ''begin'' ''Indexing'')"
    by code_simp
  have quiet: "\<forall>m \<in> set (during_initialize ?env @ during_wait ?env). \<not> fires m"
    using a b by simp
  show ?thesis
    using timeout_forces_readiness [OF gip sup s quiet] gip sup s a b
    by simp
qed

section \<open>The initialize parameters and the process id\<close>




end
